theory Spec2Isabelle
  imports Main
begin

section \<open>Python string primitives used by slurm\_gpustat\<close>

text \<open>
  The exceptions the modelled code can raise. A Python function that may raise is a
  function into \<open>error + 'a\<close>, with \<open>Inl\<close> for the exception.
\<close>

datatype error = IndexError | ValueError | KeyError | UnboundLocalError

text \<open>
  Strings are lists of characters; a \<open>char\<close> stands for the code point of the same
  number (0 to 255). \<open>isspace\<close> is the set of code points in that range that Python's
  \<open>str.strip()\<close>, \<open>str.split()\<close> and \<open>int()\<close> treat as whitespace.
\<close>

definition isspace :: "char \<Rightarrow> bool" where
  "isspace c = (c \<in> set [CHR 0x09, CHR 0x0A, CHR 0x0B, CHR 0x0C, CHR 0x0D,
                           CHR 0x1C, CHR 0x1D, CHR 0x1E, CHR 0x1F, CHR 0x20,
                           CHR 0x85, CHR 0xA0])"

text \<open>\<open>s.strip()\<close>: whitespace removed at both ends.\<close>

definition strip :: "string \<Rightarrow> string" where
  "strip s = rev (dropWhile isspace (rev (dropWhile isspace s)))"

text \<open>\<open>s[i:k]\<close> for indices that are not negative: the end is clamped to the length,
  and the slice is empty when \<open>k \<le> i\<close>.\<close>

definition slice :: "'a list \<Rightarrow> nat \<Rightarrow> nat \<Rightarrow> 'a list" where
  "slice s i k = take (k - i) (drop i s)"

text \<open>\<open>s.split(sep)\<close> for a separator of one character: the empty string gives
  one empty field.\<close>

fun split_on :: "char \<Rightarrow> string \<Rightarrow> string list" where
  "split_on sep [] = [[]]"
| "split_on sep (c # cs) =
     (if c = sep then [] # split_on sep cs
      else (case split_on sep cs of
              [] \<Rightarrow> [[c]]
            | w # ws \<Rightarrow> (c # w) # ws))"

text \<open>\<open>s.index(c)\<close>, for a string or a list: the position of the first
  occurrence, \<open>ValueError\<close> when there is none.\<close>

definition index :: "'a list \<Rightarrow> 'a \<Rightarrow> error + nat" where
  "index s c = (if c \<in> set s then Inr (length (takeWhile (\<lambda>x. x \<noteq> c) s)) else Inl ValueError)"

text \<open>
  \<open>int(s)\<close> in base ten: whitespace is stripped at both ends, one sign may lead, and
  the rest is a non-empty run of decimal digits in which single underscores may
  stand between two digits. Anything else raises \<open>ValueError\<close>. (The interpreter's
  optional cap on the number of digits is not modelled: integers are unbounded.)
\<close>

definition is_digit :: "char \<Rightarrow> bool" where
  "is_digit c = (c \<in> set ''0123456789'')"

definition digit_val :: "char \<Rightarrow> nat" where
  "digit_val c = of_char c - 48"

fun int_digits :: "string \<Rightarrow> bool \<Rightarrow> nat \<Rightarrow> nat option" where
  "int_digits [] prev acc = (if prev then Some acc else None)"
| "int_digits (c # cs) prev acc =
     (if is_digit c then int_digits cs True (acc * 10 + digit_val c)
      else if c = CHR ''_'' \<and> prev then int_digits cs False acc
      else None)"

definition py_int :: "string \<Rightarrow> error + int" where
  "py_int s =
     (case strip s of
        [] \<Rightarrow> Inl ValueError
      | c # cs \<Rightarrow>
          if c = CHR ''-'' then
            (case int_digits cs False 0 of None \<Rightarrow> Inl ValueError | Some n \<Rightarrow> Inr (- int n))
          else if c = CHR ''+'' then
            (case int_digits cs False 0 of None \<Rightarrow> Inl ValueError | Some n \<Rightarrow> Inr (int n))
          else
            (case int_digits (c # cs) False 0 of None \<Rightarrow> Inl ValueError | Some n \<Rightarrow> Inr (int n)))"

text \<open>\<open>str(x)\<close> for an integer: the decimal digits, after a minus sign when
  \<open>x\<close> is negative.\<close>

definition digit_char :: "nat \<Rightarrow> char" where
  "digit_char d = char_of (48 + d)"

fun str_nat :: "nat \<Rightarrow> string" where
  "str_nat n = (if n < 10 then [digit_char n] else str_nat (n div 10) @ [digit_char (n mod 10)])"

declare str_nat.simps [simp del]

definition py_str :: "int \<Rightarrow> string" where
  "py_str x = (if x < 0 then CHR ''-'' # str_nat (nat (- x)) else str_nat (nat x))"

text \<open>\<open>s.zfill(width)\<close>: zeros are put on the left up to the width, after a
  leading sign if there is one.\<close>

definition zfill :: "string \<Rightarrow> nat \<Rightarrow> string" where
  "zfill s width =
     (if width \<le> length s then s
      else (case s of
              [] \<Rightarrow> replicate width CHR ''0''
            | c # cs \<Rightarrow>
                if c = CHR ''+'' \<or> c = CHR ''-''
                then c # replicate (width - length s) CHR ''0'' @ cs
                else replicate (width - length s) CHR ''0'' @ s))"

section \<open>The node-range parser\<close>

text \<open>
  The loop of \<open>split_node_str\<close> over \<open>enumerate(node_str)\<close>: \<open>breakpoints\<close> and
  \<open>stack\<close> are the two lists of the source. \<open>stack.pop()\<close> on the empty stack
  raises \<open>IndexError\<close>.
\<close>

fun scan :: "(nat \<times> char) list \<Rightarrow> nat list \<Rightarrow> char list \<Rightarrow> error + nat list" where
  "scan [] breakpoints stack = Inr breakpoints"
| "scan ((ii, c) # rest) breakpoints stack =
     (if c = CHR ''['' then scan rest breakpoints (stack @ [c])
      else if c = CHR '']'' then
        (if stack = [] then Inl IndexError else scan rest breakpoints (butlast stack))
      else if stack = [] \<and> c = CHR '','' then scan rest (breakpoints @ [ii + 1]) stack
      else scan rest breakpoints stack)"

text \<open>
  \<open>split_node_str\<close>: the slices \<open>node_str[i: j - 1]\<close> over the pairs of
  consecutive breakpoints. Every \<open>j\<close> is at least 1, so \<open>j - 1\<close> is never negative.
\<close>

definition split_node_str :: "string \<Rightarrow> error + string list" where
  "split_node_str s =
     (let node_str = strip s in
      case scan (enumerate 0 node_str) [0] [] of
        Inl e \<Rightarrow> Inl e
      | Inr breakpoints \<Rightarrow>
          (let endp = length node_str + 1 in
           Inr (map (\<lambda>(i, j). slice node_str i (j - 1))
                    (zip breakpoints (tl breakpoints @ [endp])))))"

text \<open>
  The body of the loop over \<open>subspecs\<close> in \<open>parse_node_names\<close>: the names one
  subspec stands for. Unpacking \<open>subspec.split("-")\<close> into two names raises
  \<open>ValueError\<close> unless there are exactly two fields.
\<close>

definition expand_subspec :: "string \<Rightarrow> string \<Rightarrow> error + string list" where
  "expand_subspec prefix subspec =
     (if CHR ''-'' \<notin> set subspec then Inr [prefix @ subspec]
      else (case split_on CHR ''-'' subspec of
              [start, endp] \<Rightarrow>
                (case py_int start of
                   Inl e \<Rightarrow> Inl e
                 | Inr a \<Rightarrow>
                     (case py_int endp of
                        Inl e \<Rightarrow> Inl e
                      | Inr b \<Rightarrow>
                          Inr (map (\<lambda>x. prefix @ zfill (py_str x) (length start)) [a..b])))
            | _ \<Rightarrow> Inl ValueError))"

text \<open>Running a loop body over a list and appending what each round yields to
  \<open>names\<close>; the first exception ends the loop.\<close>

fun extend_all :: "('a \<Rightarrow> error + string list) \<Rightarrow> 'a list \<Rightarrow> string list \<Rightarrow> error + string list" where
  "extend_all f [] names = Inr names"
| "extend_all f (x # xs) names =
     (case f x of Inl e \<Rightarrow> Inl e | Inr subnames \<Rightarrow> extend_all f xs (names @ subnames))"

text \<open>The body of the loop over \<open>node_specs\<close> in \<open>parse_node_names\<close>.\<close>

definition expand_node_spec :: "string \<Rightarrow> error + string list" where
  "expand_node_spec node_spec =
     (if CHR ''['' \<notin> set node_spec then Inr [node_spec]
      else (case index node_spec CHR ''['' of
              Inl e \<Rightarrow> Inl e
            | Inr head \<Rightarrow>
                (case index node_spec CHR '']'' of
                   Inl e \<Rightarrow> Inl e
                 | Inr tail \<Rightarrow>
                     (let prefix = take head node_spec;
                          subspecs = split_on CHR '','' (slice node_spec (head + 1) tail)
                      in extend_all (expand_subspec prefix) subspecs []))))"

definition parse_node_names :: "string \<Rightarrow> error + string list" where
  "parse_node_names node_str =
     (case split_node_str node_str of
        Inl e \<Rightarrow> Inl e
      | Inr node_specs \<Rightarrow> extend_all expand_node_spec node_specs [])"

subsection \<open>The parser as the specification words it\<close>

text \<open>
  The specification describes the top-level split by a bracket-depth counter that
  starts at zero, goes up on \<open>[\<close> and down on \<open>]\<close>, and lets a comma split only at
  depth zero. \<open>depth_negative d s\<close> says that the counter, started at \<open>d\<close>, is asked
  to go below zero somewhere in \<open>s\<close>; \<open>final_depth d s\<close> is where it ends (when it
  never goes below zero); \<open>splitTopLevel d s\<close> is the list of pieces.
\<close>

fun depth_negative :: "nat \<Rightarrow> string \<Rightarrow> bool" where
  "depth_negative d [] = False"
| "depth_negative d (c # cs) =
     (if c = CHR ''['' then depth_negative (d + 1) cs
      else if c = CHR '']'' then (d = 0 \<or> depth_negative (d - 1) cs)
      else depth_negative d cs)"

fun final_depth :: "nat \<Rightarrow> string \<Rightarrow> nat" where
  "final_depth d [] = d"
| "final_depth d (c # cs) =
     (if c = CHR ''['' then final_depth (d + 1) cs
      else if c = CHR '']'' then final_depth (d - 1) cs
      else final_depth d cs)"

fun splitTopLevel :: "nat \<Rightarrow> string \<Rightarrow> string list" where
  "splitTopLevel d [] = [[]]"
| "splitTopLevel d (c # cs) =
     (if c = CHR '','' \<and> d = 0 then [] # splitTopLevel d cs
      else (case splitTopLevel
                   (if c = CHR ''['' then d + 1 else if c = CHR '']'' then d - 1 else d) cs of
              [] \<Rightarrow> [[c]]
            | w # ws \<Rightarrow> (c # w) # ws))"

text \<open>The breakpoints that the loop of \<open>split_node_str\<close> appends when it runs over
  \<open>s\<close> from position \<open>n\<close> with \<open>d\<close> brackets on its stack.\<close>

fun cuts :: "nat \<Rightarrow> nat \<Rightarrow> string \<Rightarrow> nat list" where
  "cuts d n [] = []"
| "cuts d n (c # cs) =
     (if c = CHR ''['' then cuts (d + 1) (n + 1) cs
      else if c = CHR '']'' then cuts (d - 1) (n + 1) cs
      else if d = 0 \<and> c = CHR '','' then (n + 1) # cuts d (n + 1) cs
      else cuts d (n + 1) cs)"

text \<open>\<open>sep.join(ws)\<close>, to say that a split loses nothing and keeps the order.\<close>

fun join :: "char \<Rightarrow> string list \<Rightarrow> string" where
  "join sep [] = []"
| "join sep [w] = w"
| "join sep (w # v # ws) = w @ sep # join sep (v # ws)"

text \<open>
  The value of a string of decimal digits, and the specification's
  \<open>zero_pad(x, w)\<close>: the decimal digits of \<open>x\<close> with zeros on the left up to
  width \<open>w\<close>.
\<close>

definition dec_val :: "string \<Rightarrow> nat" where
  "dec_val ds = foldl (\<lambda>acc c. acc * 10 + digit_val c) 0 ds"

definition zero_pad :: "int \<Rightarrow> nat \<Rightarrow> string" where
  "zero_pad x w = replicate (w - length (str_nat (nat x))) CHR ''0'' @ str_nat (nat x)"

section \<open>Inventory, usage and availability\<close>

text \<open>
  A Python \<open>dict\<close> with string keys is an association list in insertion order with
  distinct keys; \<open>map_of\<close> reads it. \<open>dict_set\<close> is \<open>d[k] = v\<close>: an existing key
  keeps its place, a new key goes to the end.
\<close>

type_synonym 'v dict = "(string \<times> 'v) list"

fun dict_set :: "'v dict \<Rightarrow> string \<Rightarrow> 'v \<Rightarrow> 'v dict" where
  "dict_set [] k v = [(k, v)]"
| "dict_set ((k', v') # d) k v =
     (if k' = k then (k', v) # d else (k', v') # dict_set d k v)"

text \<open>
  The inventory maps a node name to a list of spec objects
  \<open>{"type": ..., "count": ...}\<close>. The specs are mutable objects that the inventory
  and its filtered copy share, so they live in a store and the lists hold their
  addresses. The lists themselves are never changed by the code modelled here.
\<close>

type_synonym addr = nat

record GPUResourceSpec =
  spec_type :: string
  spec_count :: int

type_synonym store = "addr \<Rightarrow> GPUResourceSpec"

type_synonym resources = "addr list dict"

text \<open>The usage record: user, then GPU type, then node name, then the count.\<close>

type_synonym usage_record = "int dict dict dict"

definition INACCESSIBLE :: "string set" where
  "INACCESSIBLE = {''drain*'', ''down*'', ''drng'', ''drain'', ''down''}"

text \<open>
  The comprehension \<open>{key: val for key, val in resources.items()
  if states.get(key, "down") not in INACCESSIBLE}\<close> of \<open>summary\<close> and \<open>available\<close>.
  \<open>states\<close> is the mapping in effect after the functions have filled in a missing
  argument.
\<close>

definition states_get :: "(string \<rightharpoonup> string) \<Rightarrow> string \<Rightarrow> string \<Rightarrow> string" where
  "states_get states key dflt = (case states key of None \<Rightarrow> dflt | Some s \<Rightarrow> s)"

definition accessible :: "(string \<rightharpoonup> string) \<Rightarrow> resources \<Rightarrow> resources" where
  "accessible states resources =
     filter (\<lambda>(key, val). states_get states key ''down'' \<notin> INACCESSIBLE) resources"

text \<open>\<open>resource_by_type\<close>: \<open>by_type\<close> is a \<open>defaultdict\<close> with default 0.\<close>

definition resource_by_type :: "store \<Rightarrow> resources \<Rightarrow> int dict" where
  "resource_by_type st resources =
     foldl (\<lambda>by_type specs.
              foldl (\<lambda>by_type a.
                       dict_set by_type (spec_type (st a))
                         ((case map_of by_type (spec_type (st a)) of None \<Rightarrow> 0 | Some v \<Rightarrow> v)
                          + spec_count (st a)))
                    by_type specs)
           [] (map snd resources)"

text \<open>\<open>summary_by_type\<close> prints the total and one line per type, sorted by count;
  the model returns both. \<open>summary\<close> raises \<open>ValueError\<close> on an unknown mode.\<close>

definition summary_by_type :: "store \<Rightarrow> resources \<Rightarrow> int \<times> int dict" where
  "summary_by_type st resources =
     (let by_type = resource_by_type st resources
      in (sum_list (map snd by_type), sort_key snd by_type))"

definition summary :: "string \<Rightarrow> store \<Rightarrow> resources \<Rightarrow> (string \<rightharpoonup> string) \<Rightarrow> error + int \<times> int dict" where
  "summary mode st resources states =
     (if mode = ''accessible'' then Inr (summary_by_type st (accessible states resources))
      else if mode = ''up'' then Inr (summary_by_type st resources)
      else Inl ValueError)"

text \<open>A loop whose body may raise: the first exception ends it.\<close>

fun for_each :: "('a \<Rightarrow> 's \<Rightarrow> error + 's) \<Rightarrow> 'a list \<Rightarrow> 's \<Rightarrow> error + 's" where
  "for_each f [] s = Inr s"
| "for_each f (x # xs) s = (case f x s of Inl e \<Rightarrow> Inl e | Inr s' \<Rightarrow> for_each f xs s')"

subsection \<open>\<open>gpu_usage\<close>\<close>

text \<open>\<open>row.split()\<close>: the fields between runs of whitespace.\<close>

fun words_from :: "string \<Rightarrow> string \<Rightarrow> string list" where
  "words_from [] cur = (if cur = [] then [] else [cur])"
| "words_from (c # cs) cur =
     (if isspace c then (if cur = [] then words_from cs [] else cur # words_from cs [])
      else words_from cs (cur @ [c]))"

definition split_ws :: "string \<Rightarrow> string list" where
  "split_ws s = words_from s []"

definition startswith :: "string \<Rightarrow> string \<Rightarrow> bool" where
  "startswith s p = (take (length p) s = p)"

text \<open>
  The local variable \<open>gpu_type\<close> of \<open>gpu_usage\<close> is assigned in the loop over rows
  and again in the loop over node names, and is read before it is assigned when the
  first row that passes the filter has neither two nor three colon-separated fields.
\<close>

datatype py_local = Unbound | PyNone | PyStr string

text \<open>
  The state of the loops of \<open>gpu_usage\<close>: the local \<open>gpu_type\<close>, the \<open>usage\<close>
  built so far, the lines printed, and how many random numbers were drawn.
  \<open>random.choice(seq)\<close> raises \<open>IndexError\<close> on an empty sequence and otherwise
  returns the element at a random index; the random numbers are a parameter
  \<open>draws\<close>, so a statement for every \<open>draws\<close> covers every choice.
\<close>

record agg_state =
  loc_gpu_type :: py_local
  loc_usage :: usage_record
  printed :: "string list"
  drawn :: nat

definition random_choice :: "(nat \<Rightarrow> nat) \<Rightarrow> nat \<Rightarrow> 'a list \<Rightarrow> error + 'a \<times> nat" where
  "random_choice draws k seq =
     (if seq = [] then Inl IndexError else Inr (seq ! (draws k mod length seq), k + 1))"

definition warning_msg :: "string \<Rightarrow> string \<Rightarrow> string \<Rightarrow> string" where
  "warning_msg user node_name t =
     ''WARNING >>> cannot determine node gpu type for '' @ user @ '' on '' @ node_name
       @ '' (guesssing '' @ t @ '')''"

text \<open>
  \<open>resources[node_name]\<close>: a plain \<open>dict\<close> (as \<open>available\<close> passes) raises
  \<open>KeyError\<close> on a missing key, a \<open>defaultdict(list)\<close> (as \<open>in_use\<close> passes) yields
  an empty list. The key that the \<open>defaultdict\<close> inserts maps to the empty list,
  which is what a later lookup yields in either case, so the insertion is left out.
\<close>

definition getitem :: "bool \<Rightarrow> resources \<Rightarrow> string \<Rightarrow> error + addr list" where
  "getitem is_defaultdict resources k =
     (case map_of resources k of
        Some v \<Rightarrow> Inr v
      | None \<Rightarrow> if is_defaultdict then Inr [] else Inl KeyError)"

text \<open>
  The last five lines of the loop over node names: \<open>usage\<close> is a
  \<open>defaultdict(dict)\<close>, its innermost dictionaries are \<open>defaultdict(lambda: 0)\<close>.
\<close>

definition usage_add :: "usage_record \<Rightarrow> string \<Rightarrow> string \<Rightarrow> string \<Rightarrow> int \<Rightarrow> usage_record" where
  "usage_add usage user t node_name num_gpus =
     (let user_dict = (case map_of usage user of None \<Rightarrow> [] | Some d \<Rightarrow> d)
      in case map_of user_dict t of
           Some node_dict \<Rightarrow>
             dict_set usage user
               (dict_set user_dict t
                  (dict_set node_dict node_name
                     ((case map_of node_dict node_name of None \<Rightarrow> 0 | Some c \<Rightarrow> c) + num_gpus)))
         | None \<Rightarrow>
             dict_set usage user (dict_set user_dict t [(node_name, 0 + num_gpus)]))"

text \<open>The body of the loop over \<open>node_names\<close>.\<close>

definition node_step :: "bool \<Rightarrow> store \<Rightarrow> resources \<Rightarrow> (nat \<Rightarrow> nat) \<Rightarrow> string \<Rightarrow> int \<Rightarrow> string \<Rightarrow> agg_state \<Rightarrow> error + agg_state" where
  "node_step is_defaultdict st resources draws user num_gpus node_name s =
     (case getitem is_defaultdict resources node_name of
        Inl e \<Rightarrow> Inl e
      | Inr specs \<Rightarrow>
          (let node_gpu_types = map (\<lambda>a. spec_type (st a)) specs in
           case (case loc_gpu_type s of
                   Unbound \<Rightarrow> Inl UnboundLocalError
                 | PyStr t \<Rightarrow> Inr (t, s)
                 | PyNone \<Rightarrow>
                     (case node_gpu_types of
                        [t] \<Rightarrow> Inr (t, s)
                      | _ \<Rightarrow>
                          (case random_choice draws (drawn s) node_gpu_types of
                             Inl e \<Rightarrow> Inl e
                           | Inr (t, k) \<Rightarrow>
                               Inr (t, s\<lparr>printed := printed s @ [warning_msg user node_name t],
                                         drawn := k\<rparr>))))
           of
             Inl e \<Rightarrow> Inl e
           | Inr (t, s') \<Rightarrow>
               Inr (s'\<lparr>loc_gpu_type := PyStr t,
                       loc_usage := usage_add (loc_usage s') user t node_name num_gpus\<rparr>)))"

text \<open>
  The body of the loop over \<open>rows\<close>. Unpacking \<open>tokens\<close> into three names raises
  \<open>ValueError\<close> when there are more than three.
\<close>

definition row_step :: "bool \<Rightarrow> store \<Rightarrow> resources \<Rightarrow> (nat \<Rightarrow> nat) \<Rightarrow> string \<Rightarrow> agg_state \<Rightarrow> error + agg_state" where
  "row_step is_defaultdict st resources draws row s =
     (let tokens = split_ws row in
      if length tokens < 3 \<or> \<not> startswith (hd tokens) ''gpu'' then Inr s
      else (case tokens of
              [gpu_count_str, node_str, user] \<Rightarrow>
                (let gpu_count_tokens = split_on CHR '':'' gpu_count_str in
                 case py_int (last gpu_count_tokens) of
                   Inl e \<Rightarrow> Inl e
                 | Inr num_gpus \<Rightarrow>
                     (let s1 = (if length gpu_count_tokens = 2 then s\<lparr>loc_gpu_type := PyNone\<rparr>
                                else if length gpu_count_tokens = 3
                                then s\<lparr>loc_gpu_type := PyStr (gpu_count_tokens ! 1)\<rparr>
                                else s)
                      in case parse_node_names node_str of
                           Inl e \<Rightarrow> Inl e
                         | Inr node_names \<Rightarrow>
                             for_each (node_step is_defaultdict st resources draws user num_gpus)
                                      node_names s1))
            | _ \<Rightarrow> Inl ValueError))"

text \<open>\<open>gpu_usage\<close> over the lines that \<open>squeue\<close> printed.\<close>

definition gpu_usage :: "bool \<Rightarrow> store \<Rightarrow> resources \<Rightarrow> (nat \<Rightarrow> nat) \<Rightarrow> string list \<Rightarrow> error + agg_state" where
  "gpu_usage is_defaultdict st resources draws rows =
     for_each (row_step is_defaultdict st resources draws) rows
       \<lparr>loc_gpu_type = Unbound, loc_usage = [], printed = [], drawn = 0\<rparr>"

subsection \<open>\<open>available\<close>\<close>

text \<open>The body of the innermost loop of \<open>available\<close>: one decrement, written
  into the spec object.\<close>

definition decrement :: "resources \<Rightarrow> string \<Rightarrow> string \<Rightarrow> int \<Rightarrow> store \<Rightarrow> error + store" where
  "decrement res t node_name user_gpu_count st =
     (case map_of res node_name of
        None \<Rightarrow> Inl KeyError
      | Some specs \<Rightarrow>
          (case index (map (\<lambda>a. spec_type (st a)) specs) t of
             Inl e \<Rightarrow> Inl e
           | Inr resource_idx \<Rightarrow>
               (let a = specs ! resource_idx;
                    count = spec_count (st a);
                    count' = max (count - user_gpu_count) 0
                in Inr (st(a := (st a)\<lparr>spec_count := count'\<rparr>)))))"

text \<open>The three nested loops over \<open>usage\<close>.\<close>

definition apply_usage :: "resources \<Rightarrow> usage_record \<Rightarrow> store \<Rightarrow> error + store" where
  "apply_usage res usage st =
     for_each (\<lambda>(user, subdict).
        for_each (\<lambda>(t, node_dicts).
           for_each (\<lambda>(node_name, user_gpu_count). decrement res t node_name user_gpu_count)
                    node_dicts)
                 subdict)
       usage st"

text \<open>
  \<open>available\<close>: what it prints (the warnings of \<open>gpu_usage\<close>, the total and the
  count of each type) and the store it leaves behind.
\<close>

record report =
  rep_warnings :: "string list"
  rep_total :: int
  rep_by_type :: "int dict"

definition available :: "store \<Rightarrow> resources \<Rightarrow> (string \<rightharpoonup> string) \<Rightarrow> (nat \<Rightarrow> nat) \<Rightarrow> string list \<Rightarrow> error + report \<times> store" where
  "available st resources states draws rows =
     (let res = accessible states resources in
      case gpu_usage False st res draws rows of
        Inl e \<Rightarrow> Inl e
      | Inr s \<Rightarrow>
          (case apply_usage res (loc_usage s) st of
             Inl e \<Rightarrow> Inl e
           | Inr st' \<Rightarrow>
               (let by_type = resource_by_type st' res
                in Inr (\<lparr>rep_warnings = printed s, rep_total = sum_list (map snd by_type),
                          rep_by_type = by_type\<rparr>, st'))))"

section \<open>The empty expression\<close>

text \<open>
  Claim C8 says that parsing the empty node-range expression returns the empty
  sequence of node names. It does not: \<open>split_node_str\<close> starts from the
  breakpoint list \<open>[0]\<close>, so the empty string yields the one slice \<open>""\<close>, which has
  no bracket and is appended to \<open>names\<close> as it is.
\<close>

theorem parse_empty_not_empty: "parse_node_names '''' \<noteq> Inr []"
  by code_simp

text \<open>
  Claim C8, as amended: parsing the empty node-range expression returns the sequence
  of one node name, the empty string.
\<close>

theorem parse_empty_singleton: "parse_node_names '''' = Inr ['''']"
  by code_simp

end
